theory Spec2Isabelle
  imports Complex_Main "HOL-Library.Sublist" "HOL-Library.Log_Nat"
begin

section \<open>The artwork table component (DataTableComponent.tsx)\<close>

text \<open>
  The component keeps its state in React state cells and changes it only through their
  setters. Every handler is modelled as a function from the state it closes over to the
  state that results once its setter calls have been applied. An \<^verbatim>\<open>async\<close> handler
  that throws rejects its promise: that is the \<open>Inl\<close> branch of its outcome, and the
  setter calls made before the throw are still part of the resulting state.
\<close>

subsection \<open>JavaScript numbers and arrays\<close>

text \<open>
  The state cells \<^verbatim>\<open>first\<close>, \<^verbatim>\<open>rows\<close> and \<^verbatim>\<open>rowCount\<close> hold integers. Their quotient, as
  the code computes it with \<^verbatim>\<open>/\<close>, is a JavaScript number that need not be an integer and
  is infinite or NaN when the divisor is zero. A finite number is the rational it stands
  for.
\<close>

datatype jsnum = Num rat | PosInf | NegInf | NaN

text \<open>
  Rounding of an exact result to the nearest double (binary64, ties to even): \<open>binade x\<close>
  is the exponent \<open>e\<close> with \<open>2\<^sup>e \<le> |x| < 2\<^sup>e\<^sup>+\<^sup>1\<close>, the spacing of the doubles there is
  \<open>2\<^sup>e\<^sup>-\<^sup>5\<^sup>2\<close> (and \<open>2\<^sup>-\<^sup>1\<^sup>0\<^sup>7\<^sup>4\<close> below the normal range), and a result that rounds to
  \<open>2\<^sup>1\<^sup>0\<^sup>2\<^sup>4\<close> or beyond is infinite.
\<close>

definition binade :: "rat \<Rightarrow> int" where
  "binade x =
     (if 1 \<le> \<bar>x\<bar> then bitlen \<lfloor>\<bar>x\<bar>\<rfloor> - 1
      else - bitlen (\<lceil>1 / \<bar>x\<bar>\<rceil> - 1))"

definition pow2 :: "int \<Rightarrow> rat" where
  "pow2 e = (if 0 \<le> e then 2 ^ nat e else 1 / 2 ^ nat (- e))"

definition round_half_even :: "rat \<Rightarrow> int" where
  "round_half_even m =
     (let f = \<lfloor>m\<rfloor>; d = m - of_int f
      in if d < 1 / 2 then f
         else if 1 / 2 < d then f + 1
         else if even f then f else f + 1)"

definition to_double :: "rat \<Rightarrow> jsnum" where
  "to_double x =
     (if x = 0 then Num 0
      else
        let ulp = pow2 (max (binade x) (- 1022) - 52);
            y = of_int (round_half_even (x / ulp)) * ulp
        in if pow2 1024 \<le> \<bar>y\<bar> then (if 0 < x then PosInf else NegInf) else Num y)"

text \<open>
  \<^verbatim>\<open>a / b\<close> for two state integers. The quotient is kept exact: that is the double the
  code computes whenever the quotient is an integer of magnitude at most \<open>2\<^sup>5\<^sup>3\<close>, and for
  operands below \<open>2\<^sup>5\<^sup>3\<close> its \<^verbatim>\<open>Math.ceil\<close> is that of the double.
\<close>

definition js_div :: "int \<Rightarrow> int \<Rightarrow> jsnum" where
  "js_div a b =
     (if b \<noteq> 0 then Num (of_int a / of_int b)
      else if 0 < a then PosInf
      else if a < 0 then NegInf
      else NaN)"

text \<open>\<^verbatim>\<open>x + k\<close> for a number \<^verbatim>\<open>x\<close> and an integer \<^verbatim>\<open>k\<close>: the exact sum, rounded to a double.\<close>

fun js_add :: "jsnum \<Rightarrow> int \<Rightarrow> jsnum" where
  "js_add (Num r) k = to_double (r + of_int k)"
| "js_add PosInf k = PosInf"
| "js_add NegInf k = NegInf"
| "js_add NaN k = NaN"

fun math_ceil :: "jsnum \<Rightarrow> jsnum" where
  "math_ceil (Num r) = Num (of_int \<lceil>r\<rceil>)"
| "math_ceil PosInf = PosInf"
| "math_ceil NegInf = NegInf"
| "math_ceil NaN = NaN"

text \<open>\<^verbatim>\<open>page <= pages\<close> and \<^verbatim>\<open>page === pages\<close> for an integer \<^verbatim>\<open>page\<close>.\<close>

fun js_le :: "int \<Rightarrow> jsnum \<Rightarrow> bool" where
  "js_le p (Num r) = (of_int p \<le> r)"
| "js_le p PosInf = True"
| "js_le p NegInf = False"
| "js_le p NaN = False"

fun js_eq :: "int \<Rightarrow> jsnum \<Rightarrow> bool" where
  "js_eq p (Num r) = (of_int p = r)"
| "js_eq p PosInf = False"
| "js_eq p NegInf = False"
| "js_eq p NaN = False"

text \<open>
  \<^verbatim>\<open>xs.slice(start, end)\<close> on arrays and strings, for integer arguments: a negative
  index counts from the end, and both indices are clamped to the length.
\<close>

definition slice :: "'a list \<Rightarrow> int \<Rightarrow> int \<Rightarrow> 'a list" where
  "slice xs start end =
     (let len = int (length xs);
          k = (if start < 0 then max (len + start) 0 else min start len);
          final = (if end < 0 then max (len + end) 0 else min end len)
      in take (nat (final - k)) (drop (nat k) xs))"

subsection \<open>Records, responses and the component state\<close>

text \<open>
  \<^verbatim>\<open>interface Artwork\<close>. The inscription of a record is \<open>None\<close> when the JSON holds
  \<^verbatim>\<open>null\<close> there, which the renderer tests for with \<^verbatim>\<open>||\<close>. A string is the list of the
  code units that \<^verbatim>\<open>length\<close> and \<^verbatim>\<open>slice\<close> count.
\<close>

record Artwork =
  artwork_id :: int
  title :: string
  place_of_origin :: string
  artist_display :: string
  inscriptions :: "string option"
  date_start :: int
  date_end :: int
  image_id :: string

text \<open>
  What \<^verbatim>\<open>await fetch(url)\<close> followed by \<^verbatim>\<open>await response.json()\<close> can yield: the fetch
  rejects, or it resolves to a response with a status whose body either fails to parse
  or parses to an object. The fields \<^verbatim>\<open>data\<close>, \<^verbatim>\<open>pagination\<close> and \<^verbatim>\<open>total\<close> of that object
  are \<open>None\<close> when they are missing (\<^verbatim>\<open>undefined\<close>).
\<close>

record pagination_info =
  total :: "int option"

record body =
  data :: "Artwork list option"
  pagination :: "pagination_info option"

datatype json = Unparseable | Parsed body

datatype response = FetchRejected | Response nat json

datatype error = NetworkError | SyntaxError | TypeError

text \<open>A request is the page and the limit written into the URL.\<close>

type_synonym request = "jsnum \<times> int"

type_synonym source = "jsnum \<Rightarrow> int \<Rightarrow> response"

record state =
  artworks :: "Artwork list option"
  totalRecords :: "int option"
  loading :: bool
  first :: int
  rows :: int
  selectedArtworks :: "Artwork list"
  rowCount :: int

text \<open>The two awaits every request goes through. The status is never read.\<close>

definition fetchJson :: "source \<Rightarrow> jsnum \<Rightarrow> int \<Rightarrow> error + body" where
  "fetchJson src page limit =
     (case src page limit of
        FetchRejected \<Rightarrow> Inl NetworkError
      | Response status Unparseable \<Rightarrow> Inl SyntaxError
      | Response status (Parsed d) \<Rightarrow> Inr d)"

subsection \<open>Column renderers\<close>

definition truncateText :: "'a list \<Rightarrow> int \<Rightarrow> 'a list" where
  "truncateText text charLimit =
     (if int (length text) \<le> charLimit then text else slice text 0 charLimit)"

text \<open>
  \<^verbatim>\<open>artwork.inscriptions || 'N/A'\<close>: the fallback is taken for \<^verbatim>\<open>null\<close> and for the
  empty string. The model returns the text of the rendered \<^verbatim>\<open>span\<close>.
\<close>

definition inscriptionsBodyTemplate :: "Artwork \<Rightarrow> string" where
  "inscriptionsBodyTemplate artwork =
     truncateText
       (case inscriptions artwork of
          None \<Rightarrow> ''N/A''
        | Some t \<Rightarrow> if t = [] then ''N/A'' else t)
       24"

subsection \<open>Page loader\<close>

text \<open>
  \<^verbatim>\<open>fetchData(page, pageSize)\<close>. The result is the request sent, the outcome of the
  promise and the state after the setter calls that ran.
\<close>

definition fetchData ::
  "source \<Rightarrow> jsnum \<Rightarrow> int \<Rightarrow> state \<Rightarrow> request list \<times> (error + unit) \<times> state" where
  "fetchData src page pageSize st =
     (let st1 = st\<lparr>loading := True\<rparr> in
      case fetchJson src page pageSize of
        Inl e \<Rightarrow> ([(page, pageSize)], Inl e, st1)
      | Inr d \<Rightarrow>
          (let st2 = st1\<lparr>artworks := data d\<rparr> in
           case pagination d of
             None \<Rightarrow> ([(page, pageSize)], Inl TypeError, st2)
           | Some p \<Rightarrow>
               ([(page, pageSize)], Inr (),
                st2\<lparr>totalRecords := total p, loading := False\<rparr>)))"


text \<open>
  The paginator's page event and its handler: \<^verbatim>\<open>setFirst(e.first)\<close>, \<^verbatim>\<open>setRows(e.rows)\<close> and
  \<^verbatim>\<open>fetchData(e.page + 1, e.rows)\<close>. It is the only writer of \<^verbatim>\<open>first\<close> and \<^verbatim>\<open>rows\<close>.
\<close>

record page_event =
  e_first :: int
  e_rows :: int
  e_page :: int

definition onPageChange ::
  "source \<Rightarrow> page_event \<Rightarrow> state \<Rightarrow> request list \<times> (error + unit) \<times> state" where
  "onPageChange src e st =
     fetchData src (js_add (Num (of_int (e_page e))) 1) (e_rows e)
       (st\<lparr>first := e_first e, rows := e_rows e\<rparr>)"

subsection \<open>Selection\<close>

definition onRowSelect :: "Artwork list \<Rightarrow> state \<Rightarrow> state" where
  "onRowSelect value st = st\<lparr>selectedArtworks := value\<rparr>"

text \<open>
  One iteration's \<^verbatim>\<open>fetch\<close>, \<^verbatim>\<open>json()\<close> and \<^verbatim>\<open>data.data\<close>. A missing \<^verbatim>\<open>data\<close> field makes
  the spread or the \<^verbatim>\<open>slice\<close> that follows throw a TypeError before anything else
  happens in the iteration.
\<close>

definition pageData :: "source \<Rightarrow> int \<Rightarrow> int \<Rightarrow> error + Artwork list" where
  "pageData src limit page =
     (case fetchJson src (Num (of_int page)) limit of
        Inl e \<Rightarrow> Inl e
      | Inr d \<Rightarrow> (case data d of None \<Rightarrow> Inl TypeError | Some fetchedData \<Rightarrow> Inr fetchedData))"

text \<open>
  The \<^verbatim>\<open>for\<close> loop of \<^verbatim>\<open>handleRowSelection\<close>, from the test \<^verbatim>\<open>page <= pages\<close> on. It carries
  the requests sent so far. With \<^verbatim>\<open>pages\<close> infinite the loop need not end: \<open>None\<close> is
  the loop that never returns.
\<close>

partial_function (option) selectionLoop ::
  "source \<Rightarrow> int \<Rightarrow> jsnum \<Rightarrow> int \<Rightarrow> Artwork list \<Rightarrow> int \<Rightarrow> request list
     \<Rightarrow> (request list \<times> (error + Artwork list)) option" where
  "selectionLoop src limit pages page newSelection rowsToFetch sent =
     (if js_le page pages then
        (case pageData src limit page of
           Inl e \<Rightarrow> Some (sent @ [(Num (of_int page), limit)], Inl e)
         | Inr fetchedData \<Rightarrow>
             (if js_eq page pages then
                (if rowsToFetch \<le> 0 then
                   Some (sent @ [(Num (of_int page), limit)],
                         Inr (newSelection @ slice fetchedData 0 rowsToFetch))
                 else
                   selectionLoop src limit pages (page + 1)
                     (newSelection @ slice fetchedData 0 rowsToFetch) rowsToFetch
                     (sent @ [(Num (of_int page), limit)]))
              else
                (if rowsToFetch - limit \<le> 0 then
                   Some (sent @ [(Num (of_int page), limit)], Inr (newSelection @ fetchedData))
                 else
                   selectionLoop src limit pages (page + 1)
                     (newSelection @ fetchedData) (rowsToFetch - limit)
                     (sent @ [(Num (of_int page), limit)]))))
      else Some (sent, Inr newSelection))"

declare selectionLoop.simps [code]

definition handleRowSelection ::
  "source \<Rightarrow> state \<Rightarrow> (request list \<times> (error + unit) \<times> state) option" where
  "handleRowSelection src st =
     (let pages = math_ceil (js_div (rowCount st) (rows st)) in
      case selectionLoop src (rows st) pages 1 [] (rowCount st) [] of
        None \<Rightarrow> None
      | Some (sent, Inl e) \<Rightarrow> Some (sent, Inl e, st)
      | Some (sent, Inr newSelection) \<Rightarrow>
          Some (sent, Inr (), st\<lparr>selectedArtworks := newSelection, rowCount := 0\<rparr>))"

text \<open>
  Modelled from the spec: the per-row toggle. It is computed inside the table widget of
  the user-interface library, which is not among the sources; the component only stores
  the array the widget hands to \<^verbatim>\<open>onSelectionChange\<close>. Following the spec, toggling adds
  the record when its identifier is absent from the selection and removes it when
  present; records are compared by identifier (\<^verbatim>\<open>dataKey="id"\<close>).
\<close>

definition toggle :: "Artwork \<Rightarrow> Artwork list \<Rightarrow> Artwork list" where
  "toggle r sel =
     (if artwork_id r \<in> set (map artwork_id sel)
      then filter (\<lambda>a. artwork_id a \<noteq> artwork_id r) sel
      else sel @ [r])"

definition rowToggle :: "Artwork \<Rightarrow> state \<Rightarrow> state" where
  "rowToggle r st = onRowSelect (toggle r (selectedArtworks st)) st"

text \<open>The SelectionSet of the spec: the identifiers of the selected records.\<close>

definition selectionIds :: "state \<Rightarrow> int set" where
  "selectionIds st = set (map artwork_id (selectedArtworks st))"

subsection \<open>Example states and data sources\<close>

text \<open>The state at mount, from the \<^verbatim>\<open>useState\<close> defaults.\<close>

definition initialState :: state where
  "initialState =
     \<lparr>artworks = Some [], totalRecords = Some 0, loading = True, first = 0, rows = 12,
      selectedArtworks = [], rowCount = 0\<rparr>"

definition exampleArtwork :: "int \<Rightarrow> Artwork" where
  "exampleArtwork i =
     \<lparr>artwork_id = i, title = ''Untitled'', place_of_origin = [], artist_display = [],
      inscriptions = None, date_start = 0, date_end = 0, image_id = []\<rparr>"

text \<open>
  A data source holding the records numbered \<open>1\<close> to \<open>count\<close>: page \<open>p\<close> of size
  \<open>limit\<close> holds the records \<open>(p - 1) * limit + 1\<close> to \<open>p * limit\<close> that exist, and a
  request that is not for a whole page number from 1 on gets an error body.
\<close>

definition gallery :: "int \<Rightarrow> source" where
  "gallery count page limit =
     (case page of
        Num r \<Rightarrow>
          if 0 < limit \<and> 1 \<le> r \<and> of_int \<lfloor>r\<rfloor> = r then
            Response 200 (Parsed
              \<lparr>data = Some (map exampleArtwork
                               [(\<lfloor>r\<rfloor> - 1) * limit + 1..min (\<lfloor>r\<rfloor> * limit) count]),
               pagination = Some \<lparr>total = Some count\<rparr>\<rparr>)
          else Response 400 (Parsed \<lparr>data = None, pagination = None\<rparr>)
      | _ \<Rightarrow> Response 400 (Parsed \<lparr>data = None, pagination = None\<rparr>))"

text \<open>A source whose every fetch rejects, and one that rejects the fetch of page \<open>j\<close> only.\<close>

definition offline :: source where
  "offline page limit = FetchRejected"

text \<open>A source that answers every request with a body that is not JSON.\<close>

definition garbled :: source where
  "garbled page limit = Response 200 Unparseable"


section \<open>Properties\<close>

subsection \<open>Integers that doubles hold exactly\<close>




text \<open>Past \<open>2\<^sup>5\<^sup>3\<close> the sum is rounded: \<^verbatim>\<open>9007199254740992 + 1\<close> is \<^verbatim>\<open>9007199254740992\<close>.\<close>

lemma js_add_rounds_past_2_53: "js_add (Num 9007199254740992) 1 = Num 9007199254740992"
  by code_simp

subsection \<open>Arithmetic of the page count\<close>





subsection \<open>The selection loop\<close>

lemma slice_from_start: "0 \<le> e \<Longrightarrow> slice xs 0 e = take (nat e) xs"
  by (auto simp: slice_def Let_def min_def)

lemma selectionLoop_exit:
  "\<not> js_le page pages \<Longrightarrow>
   selectionLoop src limit pages page sel rtf sent = Some (sent, Inr sel)"
  by (subst selectionLoop.simps) simp





subsection \<open>The example data sources\<close>



subsection \<open>Toggling and the page request\<close>

lemma toggle_absent_twice:
  assumes "artwork_id r \<notin> set (map artwork_id sel)"
  shows "toggle r (toggle r sel) = sel"
proof -
  have "filter (\<lambda>a. artwork_id a \<noteq> artwork_id r) sel = sel"
    using assms by (induction sel) auto
  then show ?thesis using assms by (simp add: toggle_def)
qed

lemma toggle_present_twice:
  assumes "artwork_id r \<in> set (map artwork_id sel)"
  shows "toggle r (toggle r sel) = filter (\<lambda>a. artwork_id a \<noteq> artwork_id r) sel @ [r]"
proof -
  have "artwork_id r \<notin> set (map artwork_id (filter (\<lambda>a. artwork_id a \<noteq> artwork_id r) sel))"
    by auto
  then show ?thesis using assms by (simp add: toggle_def)
qed

lemma toggle_twice_ids:
  "set (map artwork_id (toggle r (toggle r sel))) = set (map artwork_id sel)"
proof (cases "artwork_id r \<in> set (map artwork_id sel)")
  case True
  then show ?thesis by (auto simp: toggle_present_twice)
next
  case False
  then show ?thesis by (simp add: toggle_absent_twice)
qed


lemma fetchData_offset:
  "first (snd (snd (fetchData src page pageSize st))) = first st \<and>
   rows (snd (snd (fetchData src page pageSize st))) = rows st"
  by (simp add: fetchData_def Let_def split: sum.splits option.splits)

text \<open>
  What the page event leaves in \<^verbatim>\<open>first\<close> and \<^verbatim>\<open>rows\<close>: for an event whose offset is its
  page index times its page size, the offset stored is a whole number of pages.
\<close>

lemma onPageChange_offset:
  "first (snd (snd (onPageChange src e st))) = e_first e \<and>
   rows (snd (snd (onPageChange src e st))) = e_rows e"
  by (simp add: onPageChange_def fetchData_offset)

lemma onPageChange_aligned:
  "e_first e = e_page e * e_rows e \<Longrightarrow>
   rows (snd (snd (onPageChange src e st))) dvd first (snd (snd (onPageChange src e st)))"
  by (simp add: onPageChange_offset)

subsection \<open>Sizes of the accumulated selection\<close>



subsection \<open>A bulk selection on the example source\<close>


lemma example_selectFirst_25:
  "handleRowSelection (gallery 50) (initialState\<lparr>rowCount := 25\<rparr>) =
     Some ([(Num 1, 12), (Num 2, 12), (Num 3, 12)], Inr (),
           initialState\<lparr>selectedArtworks := map exampleArtwork [1..25], rowCount := 0\<rparr>)"
  by code_simp

section \<open>The claims\<close>

subsection \<open>Page loader\<close>



text \<open>
  Claim C4 as written fails: a load whose fetch is rejected has set the loading flag and
  never clears it, and the state has no cell that records the error.
\<close>

theorem page_load_failure_counterexample:
  "fetchData offline (Num 1) 12 (initialState\<lparr>loading := False\<rparr>) =
     ([(Num 1, 12)], Inl NetworkError, initialState) \<and>
   loading initialState"
  by (simp add: fetchData_def fetchJson_def offline_def initialState_def)

text \<open>
  Claim C4, amended: when the fetch of a page load is rejected or the body of the
  response cannot be parsed, the load fails with an error handed to its caller (the
  promise of \<^verbatim>\<open>fetchData\<close> rejects), the previously displayed records and the total stay
  as they were, and the loading flag is left set.
\<close>

theorem page_load_failure:
  assumes "src page pageSize = FetchRejected \<or> src page pageSize = Response status Unparseable"
  shows "isl (fst (snd (fetchData src page pageSize st))) \<and>
         snd (snd (fetchData src page pageSize st)) = st\<lparr>loading := True\<rparr>"
  using assms by (auto simp: fetchData_def fetchJson_def)

theorem page_load_failure_witness:
  "offline (Num 3) 12 = FetchRejected \<and>
   fst (snd (fetchData offline (Num 3) 12 (initialState\<lparr>loading := False\<rparr>))) = Inl NetworkError \<and>
   snd (snd (fetchData offline (Num 3) 12 (initialState\<lparr>loading := False\<rparr>))) = initialState \<and>
   garbled (Num 3) 12 = Response 200 Unparseable \<and>
   fst (snd (fetchData garbled (Num 3) 12 (initialState\<lparr>loading := False\<rparr>))) = Inl SyntaxError \<and>
   snd (snd (fetchData garbled (Num 3) 12 (initialState\<lparr>loading := False\<rparr>))) = initialState"
  using page_load_failure [of offline "Num 3" 12 0 "initialState\<lparr>loading := False\<rparr>"]
    page_load_failure [of garbled "Num 3" 12 200 "initialState\<lparr>loading := False\<rparr>"]
  by (simp add: offline_def garbled_def initialState_def fetchData_def fetchJson_def)

subsection \<open>Selection\<close>





text \<open>
  Claim C5: for every page size \<open>rows > 0\<close>, selecting the first 0 records performs no
  fetch and leaves an empty selection.
\<close>

theorem selectFirst_zero:
  "0 < rows st \<Longrightarrow> rowCount st = 0 \<Longrightarrow>
   handleRowSelection src st = Some ([], Inr (), st\<lparr>selectedArtworks := [], rowCount := 0\<rparr>)"
  by (simp add: handleRowSelection_def js_div_def selectionLoop_exit)

theorem selectFirst_zero_witness:
  "0 < rows (initialState\<lparr>selectedArtworks := [exampleArtwork 7]\<rparr>) \<and>
   rowCount (initialState\<lparr>selectedArtworks := [exampleArtwork 7]\<rparr>) = 0 \<and>
   handleRowSelection (gallery 50) (initialState\<lparr>selectedArtworks := [exampleArtwork 7]\<rparr>) =
     Some ([], Inr (), initialState)"
  using selectFirst_zero [of "initialState\<lparr>selectedArtworks := [exampleArtwork 7]\<rparr>" "gallery 50"]
  by (simp add: initialState_def)

text \<open>
  Claim C6: a bulk selection that completes replaces the selection with the records its
  loop accumulated; the outcome does not depend on the selection held before the call.
\<close>

theorem selectFirst_overwrites:
  assumes "handleRowSelection src st = Some (sent, Inr (), st')"
  shows "(\<forall>old. handleRowSelection src (st\<lparr>selectedArtworks := old\<rparr>) = Some (sent, Inr (), st')) \<and>
         (\<exists>newSelection.
            selectionLoop src (rows st) (math_ceil (js_div (rowCount st) (rows st))) 1 []
              (rowCount st) [] = Some (sent, Inr newSelection) \<and>
            st' = st\<lparr>selectedArtworks := newSelection, rowCount := 0\<rparr>)"
proof -
  from assms obtain newSelection where
    loop: "selectionLoop src (rows st) (math_ceil (js_div (rowCount st) (rows st))) 1 []
             (rowCount st) [] = Some (sent, Inr newSelection)"
    and st': "st' = st\<lparr>selectedArtworks := newSelection, rowCount := 0\<rparr>"
    by (auto simp: handleRowSelection_def split: option.splits sum.splits)
  have "handleRowSelection src (st\<lparr>selectedArtworks := old\<rparr>) = Some (sent, Inr (), st')" for old
    by (simp add: handleRowSelection_def loop st')
  with loop st' show ?thesis by blast
qed

theorem selectFirst_overwrites_witness:
  "handleRowSelection (gallery 50) (initialState\<lparr>rowCount := 25\<rparr>) =
     Some ([(Num 1, 12), (Num 2, 12), (Num 3, 12)], Inr (),
           initialState\<lparr>selectedArtworks := map exampleArtwork [1..25], rowCount := 0\<rparr>) \<and>
   handleRowSelection (gallery 50)
       (initialState\<lparr>rowCount := 25, selectedArtworks := [exampleArtwork 99]\<rparr>) =
     Some ([(Num 1, 12), (Num 2, 12), (Num 3, 12)], Inr (),
           initialState\<lparr>selectedArtworks := map exampleArtwork [1..25], rowCount := 0\<rparr>)"
  using selectFirst_overwrites [OF example_selectFirst_25] example_selectFirst_25
  by blast




text \<open>
  Claim C8: the handler stores the array it is handed and changes no other cell; a toggle
  adds the record's identifier to the selection when it is absent and removes it when it
  is present; and for every record and every selection, toggling the record twice gives
  back a selection with the original identifiers (and the original state when the record
  was not selected). No request is sent: the handler has no access to the data source.
\<close>

theorem toggle_adds_removes_and_twice:
  "onRowSelect value st = st\<lparr>selectedArtworks := value\<rparr> \<and>
   selectedArtworks (onRowSelect value st) = value \<and>
   rowToggle r st = st\<lparr>selectedArtworks := selectedArtworks (rowToggle r st)\<rparr> \<and>
   (artwork_id r \<notin> selectionIds st \<longrightarrow>
      selectionIds (rowToggle r st) = insert (artwork_id r) (selectionIds st)) \<and>
   (artwork_id r \<in> selectionIds st \<longrightarrow>
      selectionIds (rowToggle r st) = selectionIds st - {artwork_id r}) \<and>
   selectionIds (rowToggle r (rowToggle r st)) = selectionIds st \<and>
   rowToggle r (rowToggle r st) =
     st\<lparr>selectedArtworks := selectedArtworks (rowToggle r (rowToggle r st))\<rparr> \<and>
   (artwork_id r \<notin> selectionIds st \<longrightarrow> rowToggle r (rowToggle r st) = st)"
proof -
  have once: "rowToggle r st = st\<lparr>selectedArtworks := toggle r (selectedArtworks st)\<rparr>"
    by (simp add: rowToggle_def onRowSelect_def)
  have twice: "rowToggle r (rowToggle r st) =
      st\<lparr>selectedArtworks := toggle r (toggle r (selectedArtworks st))\<rparr>"
    by (simp add: rowToggle_def onRowSelect_def)
  have adds: "selectionIds (rowToggle r st) = insert (artwork_id r) (selectionIds st)"
    if "artwork_id r \<notin> selectionIds st"
    using that by (simp add: once selectionIds_def toggle_def)
  have removes: "selectionIds (rowToggle r st) = selectionIds st - {artwork_id r}"
    if "artwork_id r \<in> selectionIds st"
    using that by (auto simp: once selectionIds_def toggle_def)
  have same_ids: "selectionIds (rowToggle r (rowToggle r st)) = selectionIds st"
    using toggle_twice_ids [of r "selectedArtworks st"] by (simp add: twice selectionIds_def)
  have same_state: "rowToggle r (rowToggle r st) = st" if "artwork_id r \<notin> selectionIds st"
    using that toggle_absent_twice [of r "selectedArtworks st"]
    by (simp add: twice selectionIds_def)
  have stores: "onRowSelect value st = st\<lparr>selectedArtworks := value\<rparr>"
    by (simp add: onRowSelect_def)
  have kept: "rowToggle r st = st\<lparr>selectedArtworks := selectedArtworks (rowToggle r st)\<rparr>"
    by (simp add: once)
  have kept2: "rowToggle r (rowToggle r st) =
      st\<lparr>selectedArtworks := selectedArtworks (rowToggle r (rowToggle r st))\<rparr>"
    by (simp add: twice)
  have stored: "selectedArtworks (onRowSelect value st) = value"
    by (simp add: stores)
  from stores stored kept adds removes same_ids kept2 same_state show ?thesis
    by (intro conjI impI)
qed

theorem toggle_adds_removes_and_twice_witness:
  "selectedArtworks (onRowSelect [exampleArtwork 5] initialState) = [exampleArtwork 5] \<and>
   artwork_id (exampleArtwork 4) \<notin> selectionIds initialState \<and>
   selectionIds (rowToggle (exampleArtwork 4) initialState) = {4} \<and>
   rowToggle (exampleArtwork 4) (rowToggle (exampleArtwork 4) initialState) = initialState \<and>
   artwork_id (exampleArtwork 2) \<in>
     selectionIds
       (initialState\<lparr>selectedArtworks := [exampleArtwork 1, exampleArtwork 2, exampleArtwork 3]\<rparr>) \<and>
   selectionIds (rowToggle (exampleArtwork 2)
      (initialState\<lparr>selectedArtworks := [exampleArtwork 1, exampleArtwork 2, exampleArtwork 3]\<rparr>)) =
   {1, 3} \<and>
   selectionIds (rowToggle (exampleArtwork 2)
      (rowToggle (exampleArtwork 2)
         (initialState\<lparr>selectedArtworks := [exampleArtwork 1, exampleArtwork 2, exampleArtwork 3]\<rparr>))) =
   {1, 2, 3}"
proof -
  let ?s = "initialState\<lparr>selectedArtworks := [exampleArtwork 1, exampleArtwork 2, exampleArtwork 3]\<rparr>"
  note empty = toggle_adds_removes_and_twice [of "[exampleArtwork 5]" initialState "exampleArtwork 4"]
  note three = toggle_adds_removes_and_twice [of "[exampleArtwork 5]" ?s "exampleArtwork 2"]
  have ids0: "selectionIds initialState = {}"
    by (simp add: selectionIds_def initialState_def)
  have ids3: "selectionIds ?s = {1, 2, 3}"
    by (simp add: selectionIds_def exampleArtwork_def)
  have id4: "artwork_id (exampleArtwork 4) = 4" and id2: "artwork_id (exampleArtwork 2) = 2"
    by (simp_all add: exampleArtwork_def)
  have rest: "{1, 2, 3} - {2} = {1, 3::int}"
    by auto
  have absent: "artwork_id (exampleArtwork 4) \<notin> selectionIds initialState"
    by (simp add: ids0)
  have present: "artwork_id (exampleArtwork 2) \<in> selectionIds ?s"
    by (simp add: ids3 id2)
  from empty have "selectedArtworks (onRowSelect [exampleArtwork 5] initialState) = [exampleArtwork 5]"
    by blast
  moreover note absent
  moreover from empty absent have "selectionIds (rowToggle (exampleArtwork 4) initialState) =
      insert (artwork_id (exampleArtwork 4)) (selectionIds initialState)"
    by blast
  then have "selectionIds (rowToggle (exampleArtwork 4) initialState) = {4}"
    by (simp only: ids0 id4)
  moreover from empty absent
  have "rowToggle (exampleArtwork 4) (rowToggle (exampleArtwork 4) initialState) = initialState"
    by blast
  moreover note present
  moreover from three present have "selectionIds (rowToggle (exampleArtwork 2) ?s) =
      selectionIds ?s - {artwork_id (exampleArtwork 2)}"
    by blast
  then have "selectionIds (rowToggle (exampleArtwork 2) ?s) = {1, 3}"
    by (simp only: ids3 id2 rest)
  moreover from three
  have "selectionIds (rowToggle (exampleArtwork 2) (rowToggle (exampleArtwork 2) ?s)) =
      selectionIds ?s"
    by blast
  then have "selectionIds (rowToggle (exampleArtwork 2) (rowToggle (exampleArtwork 2) ?s)) =
      {1, 2, 3}"
    by (simp only: ids3)
  ultimately show ?thesis by (intro conjI)
qed

subsection \<open>Column renderers\<close>

text \<open>
  Claim C9 as written fails: an inscription longer than 24 characters is rendered as its
  first 24 characters, with no ellipsis after them.
\<close>

theorem inscriptions_ellipsis_counterexample:
  "inscriptionsBodyTemplate
     (exampleArtwork 1\<lparr>inscriptions := Some ''abcdefghijklmnopqrstuvwxyz0123''\<rparr>) =
     ''abcdefghijklmnopqrstuvwx'' \<and>
   inscriptionsBodyTemplate
     (exampleArtwork 1\<lparr>inscriptions := Some ''abcdefghijklmnopqrstuvwxyz0123''\<rparr>) \<noteq>
     ''abcdefghijklmnopqrstuvwx...''"
  by (simp add: inscriptionsBodyTemplate_def truncateText_def slice_def exampleArtwork_def)

text \<open>
  Claim C9, amended: the inscriptions column renders the first 24 characters of the
  inscription, appending nothing, and renders the fallback label \<open>N/A\<close> when the
  inscription is absent or empty.
\<close>

theorem inscriptions_cut_or_fallback:
  "(inscriptions a = None \<or> inscriptions a = Some [] \<longrightarrow>
      inscriptionsBodyTemplate a = ''N/A'') \<and>
   (\<forall>t. inscriptions a = Some t \<and> t \<noteq> [] \<longrightarrow>
      inscriptionsBodyTemplate a = take 24 t \<and> prefix (inscriptionsBodyTemplate a) t)"
  by (auto simp: inscriptionsBodyTemplate_def truncateText_def slice_from_start take_is_prefix)

theorem inscriptions_cut_or_fallback_witness:
  "inscriptionsBodyTemplate (exampleArtwork 1) = ''N/A'' \<and>
   inscriptionsBodyTemplate (exampleArtwork 1\<lparr>inscriptions := Some []\<rparr>) = ''N/A'' \<and>
   inscriptionsBodyTemplate
     (exampleArtwork 1\<lparr>inscriptions := Some ''abcdefghijklmnopqrstuvwxyz0123''\<rparr>) =
     ''abcdefghijklmnopqrstuvwx''"
  using inscriptions_cut_or_fallback [of "exampleArtwork 1"]
    inscriptions_cut_or_fallback [of "exampleArtwork 1\<lparr>inscriptions := Some []\<rparr>"]
    inscriptions_cut_or_fallback
      [of "exampleArtwork 1\<lparr>inscriptions := Some ''abcdefghijklmnopqrstuvwxyz0123''\<rparr>"]
  by (simp add: exampleArtwork_def)

text \<open>
  Claim C10: for every string \<open>t\<close> and character limit \<open>c\<close> (a count, so \<open>c \<ge> 0\<close>):
  if the length of \<open>t\<close> is at most \<open>c\<close> then \<open>truncateText t c = t\<close>, otherwise the result
  has length exactly \<open>c\<close> and is a prefix of \<open>t\<close>; and \<open>truncateText\<close> is idempotent.
\<close>

theorem truncateText_prefix_idempotent:
  assumes "0 \<le> c"
  shows "(int (length t) \<le> c \<longrightarrow> truncateText t c = t) \<and>
         (c < int (length t) \<longrightarrow>
            int (length (truncateText t c)) = c \<and> prefix (truncateText t c) t) \<and>
         truncateText (truncateText t c) c = truncateText t c"
proof -
  have cut: "truncateText t c = take (nat c) t" if "c < int (length t)"
    using that assms by (simp add: truncateText_def slice_from_start)
  have short: "truncateText t c = t" if "int (length t) \<le> c"
    using that by (simp add: truncateText_def)
  have len: "int (length (truncateText t c)) \<le> c"
  proof (cases "int (length t) \<le> c")
    case True
    then show ?thesis by (simp add: short)
  next
    case False
    then show ?thesis using assms by (simp add: cut)
  qed
  have idem: "truncateText (truncateText t c) c = truncateText t c"
    using len by (simp add: truncateText_def)
  have "int (length (truncateText t c)) = c \<and> prefix (truncateText t c) t"
    if "c < int (length t)"
    using that assms by (simp add: cut take_is_prefix min_def)
  with short idem show ?thesis by blast
qed

theorem truncateText_prefix_idempotent_witness:
  "(0::int) \<le> 24 \<and>
   truncateText ''N/A'' 24 = ''N/A'' \<and>
   int (length (truncateText ''abcdefghijklmnopqrstuvwxyz0123'' 24)) = 24 \<and>
   prefix (truncateText ''abcdefghijklmnopqrstuvwxyz0123'' 24) ''abcdefghijklmnopqrstuvwxyz0123'' \<and>
   truncateText (truncateText ''abcdefghijklmnopqrstuvwxyz0123'' 24) 24 =
     truncateText ''abcdefghijklmnopqrstuvwxyz0123'' 24"
  using truncateText_prefix_idempotent [of 24 "''N/A''"]
    truncateText_prefix_idempotent [of 24 "''abcdefghijklmnopqrstuvwxyz0123''"]
  by simp

end
